theory Spec2Isabelle
  imports Main "HOL-Library.Sublist"
begin

section \<open>Python primitives used by \<^verbatim>\<open>atacseq.py\<close>\<close>

text \<open>
  The pipeline is Python 2 code (\<^verbatim>\<open>map(str, range(1, 23)) + ['X', 'Y']\<close> concatenates a
  list, \<^verbatim>\<open>int(...)/4\<close> is integer division), so a \<^verbatim>\<open>str\<close> is a byte string: a
  \<^typ>\<open>string\<close> here. Integers are unbounded (\<^typ>\<open>int\<close>). Every exception the code can
  raise is a value of \<open>py_error\<close>, and a computation that can raise returns
  \<open>py_error + 'a\<close> with \<open>Inl\<close> for the exception.
\<close>

datatype py_error = IndexError | ValueError | KeyError

definition TAB :: string where
  "TAB = [CHR 0x09]"

definition NL :: string where
  "NL = [CHR 0x0A]"

text \<open>\<^verbatim>\<open>str.strip()\<close> without argument removes the ASCII whitespace bytes
  space, \<^verbatim>\<open>\t \n \r \x0b \x0c\<close> from both ends.\<close>

definition is_space :: "char \<Rightarrow> bool" where
  "is_space c = (c \<in> set [CHR 0x20, CHR 0x09, CHR 0x0A, CHR 0x0D, CHR 0x0B, CHR 0x0C])"

definition py_strip :: "string \<Rightarrow> string" where
  "py_strip s = rev (dropWhile is_space (rev (dropWhile is_space s)))"

text \<open>\<^verbatim>\<open>s.split(sep)\<close> for a one-character separator: always at least one field, empty
  fields are kept.\<close>

fun py_split :: "char \<Rightarrow> string \<Rightarrow> string list" where
  "py_split sep [] = [[]]"
| "py_split sep (c # cs) =
     (if c = sep then [] # py_split sep cs
      else (case py_split sep cs of
              [] \<Rightarrow> [[c]]
            | f # fs \<Rightarrow> (c # f) # fs))"

text \<open>\<^verbatim>\<open>sep.join(xs)\<close>.\<close>

fun py_join :: "string \<Rightarrow> string list \<Rightarrow> string" where
  "py_join sep [] = []"
| "py_join sep [x] = x"
| "py_join sep (x # y # ys) = x @ sep @ py_join sep (y # ys)"

text \<open>Iterating over a text file yields its lines, each with its terminating
  \<^verbatim>\<open>\n\<close>; a last line without one is yielded as it is.\<close>

fun py_lines :: "string \<Rightarrow> string list" where
  "py_lines [] = []"
| "py_lines (c # cs) =
     (if c = CHR 0x0A then [c] # py_lines cs
      else (case py_lines cs of
              [] \<Rightarrow> [[c]]
            | l # ls \<Rightarrow> (c # l) # ls))"

text \<open>\<^verbatim>\<open>int(s)\<close> on a string, base 10, as CPython 2 reads it (\<^verbatim>\<open>PyInt_FromString\<close>
  through \<^verbatim>\<open>PyOS_strtol\<close>): surrounding whitespace is ignored, then comes one optional
  sign, which whitespace may follow, and at least one decimal digit; anything else
  raises \<^verbatim>\<open>ValueError\<close>.\<close>

definition is_digit :: "char \<Rightarrow> bool" where
  "is_digit c = (c \<in> set ''0123456789'')"

definition digit_val :: "char \<Rightarrow> nat" where
  "digit_val c = of_char c - 48"

definition nat_of_digits :: "string \<Rightarrow> nat" where
  "nat_of_digits ds = foldl (\<lambda>acc c. 10 * acc + digit_val c) 0 ds"

definition py_int :: "string \<Rightarrow> py_error + int" where
  "py_int s =
     (case py_strip s of
        [] \<Rightarrow> Inl ValueError
      | c # cs \<Rightarrow>
          if c = CHR ''-'' then
            (if dropWhile is_space cs \<noteq> [] \<and> list_all is_digit (dropWhile is_space cs)
             then Inr (- int (nat_of_digits (dropWhile is_space cs)))
             else Inl ValueError)
          else if c = CHR ''+'' then
            (if dropWhile is_space cs \<noteq> [] \<and> list_all is_digit (dropWhile is_space cs)
             then Inr (int (nat_of_digits (dropWhile is_space cs)))
             else Inl ValueError)
          else if list_all is_digit (c # cs) then Inr (int (nat_of_digits (c # cs)))
          else Inl ValueError)"

text \<open>\<^verbatim>\<open>str(n)\<close> on an integer: decimal digits, a leading minus sign for a negative
  number.\<close>

fun str_nat :: "nat \<Rightarrow> string" where
  "str_nat n =
     (if n < 10 then [''0123456789'' ! n]
      else str_nat (n div 10) @ [''0123456789'' ! (n mod 10)])"

declare str_nat.simps [simp del]

definition py_str :: "int \<Rightarrow> string" where
  "py_str i = (if i < 0 then CHR ''-'' # str_nat (nat (- i)) else str_nat (nat i))"

section \<open>The Coordinate Shifter: \<^verbatim>\<open>Pipeline.shift_reads\<close>\<close>

text \<open>
  The two files the function writes. \<open>output_bed\<close> is opened with mode \<^verbatim>\<open>'w'\<close>,
  \<open>log_file\<close> with mode \<^verbatim>\<open>'a'\<close> at each message. The four paths of a call are
  taken to name four different readable or writable files.
\<close>

record shift_files =
  output_bed :: string
  log_file :: string

definition to_log :: "string \<Rightarrow> shift_files \<Rightarrow> shift_files" where
  "to_log msg fs = fs\<lparr>log_file := log_file fs @ msg @ NL\<rparr>"

definition within_genome_boundry ::
  "string \<Rightarrow> int \<Rightarrow> (string \<rightharpoonup> int) \<Rightarrow> py_error + bool" where
  "within_genome_boundry chrom check_pos genome_sizes_dict =
     (if check_pos < 1 then Inr False
      else (case genome_sizes_dict chrom of
              None \<Rightarrow> Inl KeyError
            | Some chrom_size \<Rightarrow> if check_pos > chrom_size then Inr False else Inr True))"

text \<open>The loop over the genome size file: each line must split into exactly two
  fields (the tuple assignment raises \<^verbatim>\<open>ValueError\<close> otherwise), a later line for the
  same chromosome replaces an earlier one.\<close>

fun load_genome_sizes ::
  "string list \<Rightarrow> (string \<rightharpoonup> int) \<Rightarrow> py_error + (string \<rightharpoonup> int)" where
  "load_genome_sizes [] genome_sizes = Inr genome_sizes"
| "load_genome_sizes (line # rest) genome_sizes =
     (case py_split (CHR 0x09) (py_strip line) of
        [chrom, chrom_size] \<Rightarrow>
          (case py_int chrom_size of
             Inl e \<Rightarrow> Inl e
           | Inr n \<Rightarrow> load_genome_sizes rest (genome_sizes(chrom \<mapsto> n)))
      | _ \<Rightarrow> Inl ValueError)"

text \<open>Line 105: the tuple \<^verbatim>\<open>record[0], int(record[1]), int(record[2]), record[5]\<close> is
  evaluated from left to right, so the first failing component decides the exception.\<close>

definition parse_record :: "string list \<Rightarrow> py_error + (string \<times> int \<times> int \<times> string)" where
  "parse_record record =
     (if length record < 2 then Inl IndexError
      else (case py_int (record ! 1) of
        Inl e \<Rightarrow> Inl e
      | Inr start \<Rightarrow>
          if length record < 3 then Inl IndexError
          else (case py_int (record ! 2) of
            Inl e \<Rightarrow> Inl e
          | Inr end \<Rightarrow>
              if length record < 6 then Inl IndexError
              else Inr (record ! 0, start, end, record ! 5))))"

text \<open>Lines 107 to 116: the strand decides the shift; \<open>None\<close> is the \<^verbatim>\<open>else\<close>
  branch.\<close>

definition shifted_coordinates ::
  "string \<Rightarrow> int \<Rightarrow> int \<Rightarrow> int \<Rightarrow> int \<Rightarrow> (int \<times> int) option" where
  "shifted_coordinates strand start end minus_strand_shift plus_strand_shift =
     (if strand = ''+'' then Some (start + plus_strand_shift, end + plus_strand_shift)
      else if strand = ''-'' then Some (start + minus_strand_shift, end + minus_strand_shift)
      else None)"

text \<open>The body of the loop over the input lines (lines 104 to 127).\<close>

definition shift_line ::
  "(string \<rightharpoonup> int) \<Rightarrow> int \<Rightarrow> int \<Rightarrow> string \<Rightarrow> shift_files \<Rightarrow> py_error + shift_files" where
  "shift_line genome_sizes minus_strand_shift plus_strand_shift line fs =
     (let record = py_split (CHR 0x09) (py_strip line) in
      case parse_record record of
        Inl e \<Rightarrow> Inl e
      | Inr (chrom, start, end, strand) \<Rightarrow>
          (case shifted_coordinates strand start end minus_strand_shift plus_strand_shift of
             None \<Rightarrow>
               Inr (to_log (py_strip line)
                      (to_log ''Mal-formatted line in file, skipping:'' fs))
           | Some (new_start, new_end) \<Rightarrow>
               (case within_genome_boundry chrom new_start genome_sizes of
                  Inl e \<Rightarrow> Inl e
                | Inr False \<Rightarrow>
                    Inr (to_log (py_strip line)
                           (to_log ''Shift start site beyond chromosome boundry:'' fs))
                | Inr True \<Rightarrow>
                    (case within_genome_boundry chrom new_end genome_sizes of
                       Inl e \<Rightarrow> Inl e
                     | Inr False \<Rightarrow>
                         Inr (to_log (py_strip line)
                                (to_log ''Shift end site beyond chromosome boundry:'' fs))
                     | Inr True \<Rightarrow>
                         Inr (fs\<lparr>output_bed := output_bed fs @
                                py_join TAB ([chrom, py_str new_start, py_str new_end] @ drop 3 record)
                                @ NL\<rparr>)))))"

fun shift_lines ::
  "(string \<rightharpoonup> int) \<Rightarrow> int \<Rightarrow> int \<Rightarrow> string list \<Rightarrow> shift_files \<Rightarrow> py_error + shift_files" where
  "shift_lines genome_sizes minus_strand_shift plus_strand_shift [] fs = Inr fs"
| "shift_lines genome_sizes minus_strand_shift plus_strand_shift (line # rest) fs =
     (case shift_line genome_sizes minus_strand_shift plus_strand_shift line fs of
        Inl e \<Rightarrow> Inl e
      | Inr fs' \<Rightarrow> shift_lines genome_sizes minus_strand_shift plus_strand_shift rest fs')"

text \<open>
  \<open>shift_reads\<close>: the arguments are the contents of the input interval file and of
  the genome size file, the contents of the log file before the call, and the two
  shifts. The previous contents of the output file are lost when it is opened.
\<close>

definition shift_reads ::
  "string \<Rightarrow> string \<Rightarrow> string \<Rightarrow> int \<Rightarrow> int \<Rightarrow> py_error + shift_files" where
  "shift_reads input_bed genome_sizes_file log0 minus_strand_shift plus_strand_shift =
     (case load_genome_sizes (py_lines genome_sizes_file) Map.empty of
        Inl e \<Rightarrow> Inl e
      | Inr genome_sizes \<Rightarrow>
          shift_lines genome_sizes minus_strand_shift plus_strand_shift (py_lines input_bed)
            \<lparr>output_bed = [], log_file = log0\<rparr>)"

definition MINUS_STRAND_SHIFT :: int where
  "MINUS_STRAND_SHIFT = - 5"

definition PLUS_STRAND_SHIFT :: int where
  "PLUS_STRAND_SHIFT = 4"

text \<open>Names for the three things the loop body does to the files, and for the list of
  fields the body works on.\<close>

abbreviation fields_of :: "string \<Rightarrow> string list" where
  "fields_of line \<equiv> py_split (CHR 0x09) (py_strip line)"

definition log_skip :: "string \<Rightarrow> string \<Rightarrow> shift_files \<Rightarrow> shift_files" where
  "log_skip msg line fs = to_log (py_strip line) (to_log msg fs)"

definition write_record :: "string list \<Rightarrow> shift_files \<Rightarrow> shift_files" where
  "write_record out_fields fs = fs\<lparr>output_bed := output_bed fs @ py_join TAB out_fields @ NL\<rparr>"

text \<open>What one input line adds to the output file and to the log, when the body does
  not raise.\<close>

definition emitted_text :: "(string \<rightharpoonup> int) \<Rightarrow> int \<Rightarrow> int \<Rightarrow> string \<Rightarrow> string" where
  "emitted_text gs m p line =
     (case shift_line gs m p line \<lparr>output_bed = [], log_file = []\<rparr> of
        Inl e \<Rightarrow> []
      | Inr fs \<Rightarrow> output_bed fs)"

definition logged_text :: "(string \<rightharpoonup> int) \<Rightarrow> int \<Rightarrow> int \<Rightarrow> string \<Rightarrow> string" where
  "logged_text gs m p line =
     (case shift_line gs m p line \<lparr>output_bed = [], log_file = []\<rparr> of
        Inl e \<Rightarrow> []
      | Inr fs \<Rightarrow> log_file fs)"

section \<open>The steric-hindrance filter (lines 310 to 319 of \<^verbatim>\<open>run_pipeline\<close>)\<close>

text \<open>An alignment record, with the one field the filter reads; every other field of
  a \<^verbatim>\<open>pysam.AlignedSegment\<close> lives in the extension of the record.\<close>

record aligned_segment =
  query_name :: string
  template_length :: int

definition STERIC_HINDRANCE_CUTOFF :: int where
  "STERIC_HINDRANCE_CUTOFF = 38"

text \<open>The loop over \<^verbatim>\<open>fetch()\<close>; the second argument is what has been written to the
  new container so far.\<close>

fun steric_filter ::
  "'a aligned_segment_scheme list \<Rightarrow> 'a aligned_segment_scheme list
     \<Rightarrow> 'a aligned_segment_scheme list" where
  "steric_filter [] written = written"
| "steric_filter (read # rest) written =
     steric_filter rest
       (if \<bar>template_length read\<bar> \<ge> STERIC_HINDRANCE_CUTOFF then written @ [read]
        else written)"

section \<open>Scraping the QC metrics (lines 279 to 290 and 334 to 345)\<close>

text \<open>\<^verbatim>\<open>re.match(r'\d+', s) is not None\<close>: the string starts with a decimal digit.\<close>

definition re_match_digits :: "string \<Rightarrow> bool" where
  "re_match_digits s = (case s of [] \<Rightarrow> False | c # _ \<Rightarrow> is_digit c)"

text \<open>The loop over the lines of the MarkDuplicates metrics report; the second argument
  is the current value of \<^verbatim>\<open>qc_data['percent_duplicate_reads']\<close>. \<^verbatim>\<open>line[FIRST_CHAR]\<close>
  raises \<^verbatim>\<open>IndexError\<close> on an empty line.\<close>

fun scrape_percent_duplicates :: "string list \<Rightarrow> string \<Rightarrow> py_error + string" where
  "scrape_percent_duplicates [] cur = Inr cur"
| "scrape_percent_duplicates (line # rest) cur =
     (case line of
        [] \<Rightarrow> Inl IndexError
      | c # _ \<Rightarrow>
          if c = CHR ''#'' then scrape_percent_duplicates rest cur
          else if length (py_split (CHR 0x09) (py_strip line)) = 9 then
            (if re_match_digits (py_split (CHR 0x09) (py_strip line) ! 7)
             then scrape_percent_duplicates rest (py_split (CHR 0x09) (py_strip line) ! 7)
             else scrape_percent_duplicates rest cur)
          else scrape_percent_duplicates rest cur)"

text \<open>The \<^verbatim>\<open>try\<close> block with its bare \<^verbatim>\<open>except\<close>: the report is \<open>None\<close> when it cannot
  be opened.\<close>

definition percent_duplicate_reads_qc :: "string option \<Rightarrow> string \<Rightarrow> string" where
  "percent_duplicate_reads_qc markdup_metrics cur =
     (case markdup_metrics of
        None \<Rightarrow> ''Could not open MarkDuplicates metrics''
      | Some text \<Rightarrow>
          (case scrape_percent_duplicates (py_lines text) cur of
             Inl e \<Rightarrow> ''Could not open MarkDuplicates metrics''
           | Inr v \<Rightarrow> v))"

text \<open>\<^verbatim>\<open>re.search(r'(\d+) \+ \d+ mapped', contents)\<close>: \<open>match_mapped\<close> matches the
  pattern at the start of a string and gives group 1 (each \<^verbatim>\<open>\d+\<close> is followed by a
  space in the pattern, so it takes the whole run of digits), \<open>re_search_mapped\<close> tries
  every position from the left.\<close>

definition match_mapped :: "string \<Rightarrow> string option" where
  "match_mapped s =
     (let d1 = takeWhile is_digit s;
          r1 = dropWhile is_digit s;
          d2 = takeWhile is_digit (drop 3 r1);
          r2 = dropWhile is_digit (drop 3 r1)
      in if d1 \<noteq> [] \<and> take 3 r1 = '' + '' \<and> d2 \<noteq> [] \<and> take 7 r2 = '' mapped''
         then Some d1 else None)"

fun re_search_mapped :: "string \<Rightarrow> string option" where
  "re_search_mapped [] = None"
| "re_search_mapped (c # cs) =
     (case match_mapped (c # cs) of
        Some g \<Rightarrow> Some g
      | None \<Rightarrow> re_search_mapped cs)"

definition num_reads_mapped_qc :: "string \<Rightarrow> string option \<Rightarrow> string" where
  "num_reads_mapped_qc flagstat_path flagstats =
     (case flagstats of
        None \<Rightarrow> ''Could not open flagstats '' @ flagstat_path
      | Some contents \<Rightarrow>
          (case re_search_mapped contents of
             Some g \<Rightarrow> py_str (int (nat_of_digits g) div 2)
           | None \<Rightarrow> ''0''))"

section \<open>The Stage Runner: \<^verbatim>\<open>Pipeline.run_pipeline\<close>\<close>

subsection \<open>Arguments, configuration, and what the run observes\<close>

text \<open>
  \<open>output_dir\<close> is \<^verbatim>\<open>os.path.abspath(pipeline_args['output'])\<close>, \<open>step\<close> is
  \<^verbatim>\<open>int(pipeline_args['step'])\<close>. The configuration is taken to have every entry that
  \<^verbatim>\<open>configure\<close> declares.
\<close>

record pipeline_args =
  reads :: "string list"
  output_dir :: string
  lib :: string
  step :: int
  forward_adapter :: string
  reverse_adapter :: string

record pipeline_config =
  cutadapt_path :: string
  bwa_path :: string
  bwa_threads :: string
  bwa_index_dir :: string
  fastqc_path :: string
  samtools_path :: string
  novosort_path :: string
  novosort_threads :: string
  picard_path :: string
  bedtools_path :: string
  bedtools_blacklist_bed :: string
  bedtools_genome_sizes :: string
  makeTagDirectory_path :: string
  findPeaks_path :: string
  pos2bed_path :: string

text \<open>
  The external tools are collaborators: a run is recorded as the sequence of its
  effects, and what the code reads back from the files the tools leave behind is a
  parameter of the run.
\<close>

record world =
  wc_lines :: "string \<Rightarrow> string"
  flagstat_report :: "string \<Rightarrow> string option"
  sortmerged_reads :: "aligned_segment list"
  markdup_metrics :: "string option"
  unshifted_bed_text :: string
  genome_sizes_text :: string
  shift_reads_log :: string

record qc_record =
  total_raw_reads_counts :: "string list list"
  trimmed_reads_counts :: "string list list"
  num_reads_mapped :: "string list"
  percent_duplicate_reads :: string
  num_unique_reads_mapped :: "string list"
  num_mtDNA_reads_mapped :: "string list"
  num_reads_mapped_after_filtering :: string
  num_peaks_called :: string

datatype stream = STDOUT | STDERR | BOTH

datatype software = Software string string

datatype arg = Parameter "string list" | Redirect stream string | Pipe software "arg list"

datatype event =
    Call "string list"
  | Run software "arg list"
  | CountGzippedLines string
  | OpenRead string
  | StericFilter string string "aligned_segment list"
  | ShiftReads string string string string shift_files
  | WriteQC string qc_record

record pipeline_state =
  read_pairs :: "string list"
  staging_delete :: "string list"
  bwa_bam_outs :: "string list"
  qc_data :: qc_record
  trace :: "event list"


text \<open>\<^verbatim>\<open>os.path.join(a, b)\<close> of \<^verbatim>\<open>posixpath\<close>.\<close>

definition os_path_join :: "string \<Rightarrow> string \<Rightarrow> string" where
  "os_path_join a b =
     (if b \<noteq> [] \<and> hd b = CHR ''/'' then b
      else if a = [] \<or> last a = CHR ''/'' then a @ b
      else a @ ''/'' @ b)"

definition logs_dir :: "pipeline_args \<Rightarrow> string" where
  "logs_dir a = os_path_join (output_dir a) ''logs''"

definition tmp_dir :: "pipeline_args \<Rightarrow> string" where
  "tmp_dir a = os_path_join (output_dir a) ''tmp''"

subsection \<open>The software instances (lines 163 to 187)\<close>





definition samtools_view :: "pipeline_config \<Rightarrow> software" where
  "samtools_view c = Software ''samtools view'' (samtools_path c @ '' view'')"

definition samtools_flagstat :: "pipeline_config \<Rightarrow> software" where
  "samtools_flagstat c = Software ''samtools flagstat'' (samtools_path c @ '' flagstat'')"

definition samtools_index :: "pipeline_config \<Rightarrow> software" where
  "samtools_index c = Software ''samtools index'' (samtools_path c @ '' index'')"

definition novosort :: "pipeline_config \<Rightarrow> software" where
  "novosort c = Software ''novosort'' (novosort_path c)"

definition picard_mark_dup :: "pipeline_config \<Rightarrow> software" where
  "picard_mark_dup c = Software ''Picard MarkDuplicates'' (picard_path c @ '' MarkDuplicates'')"









subsection \<open>The paths the stages derive from the run identifier\<close>



definition lib_file :: "pipeline_args \<Rightarrow> string \<Rightarrow> string" where
  "lib_file a ext = os_path_join (output_dir a) (lib a @ ext)"

definition sortmerged_bam :: "pipeline_args \<Rightarrow> string" where
  "sortmerged_bam a = lib_file a ''.sortmerged.bam''"

definition steric_filter_bam :: "pipeline_args \<Rightarrow> string" where
  "steric_filter_bam a = lib_file a ''.steric.bam''"

definition duprm_bam :: "pipeline_args \<Rightarrow> string" where
  "duprm_bam a = lib_file a ''.duprm.bam''"

definition unique_bam :: "pipeline_args \<Rightarrow> string" where
  "unique_bam a = lib_file a ''.unique.bam''"

definition unmappedrm_bam :: "pipeline_args \<Rightarrow> string" where
  "unmappedrm_bam a = lib_file a ''.unmappedrm.bam''"

definition chrmrm_bam :: "pipeline_args \<Rightarrow> string" where
  "chrmrm_bam a = lib_file a ''.chrmrm.bam''"








definition markduplicates_metrics_filepath :: "pipeline_args \<Rightarrow> string" where
  "markduplicates_metrics_filepath a = os_path_join (logs_dir a) ''mark_dup.metrics''"

subsection \<open>Stage 1: trim (lines 189 to 224)\<close>





subsection \<open>Stage 2: quality report and alignment of each read file (lines 226 to 244)\<close>



subsection \<open>Stage 3: paired alignment (lines 246 to 269)\<close>




subsection \<open>Stage 4: post-processing (lines 271 to 388)\<close>

definition flagstat_qc :: "pipeline_config \<Rightarrow> world \<Rightarrow> string \<Rightarrow> pipeline_state \<Rightarrow> pipeline_state" where
  "flagstat_qc c w bwa_bam st =
     st\<lparr>qc_data := (qc_data st)\<lparr>
          num_reads_mapped := num_reads_mapped (qc_data st) @
            [num_reads_mapped_qc (bwa_bam @ ''.flagstat'') (flagstat_report w (bwa_bam @ ''.flagstat''))]\<rparr>,
        trace := trace st @
          [Run (samtools_flagstat c)
             [Parameter [bwa_bam], Redirect STDOUT (bwa_bam @ ''.flagstat'')],
           OpenRead (bwa_bam @ ''.flagstat'')]\<rparr>"

definition all_chr :: "arg list" where
  "all_chr = map (\<lambda>chromosome. Parameter [''chr'' @ chromosome])
               (map py_str [1..22] @ [''X'', ''Y''])"

definition stage4 :: "pipeline_args \<Rightarrow> pipeline_config \<Rightarrow> world \<Rightarrow> pipeline_state \<Rightarrow> pipeline_state" where
  "stage4 a c w st0 =
     (let st = fold (flagstat_qc c w) (bwa_bam_outs st0) st0 in
      st\<lparr>
        qc_data := (qc_data st)\<lparr>
          percent_duplicate_reads :=
            percent_duplicate_reads_qc (markdup_metrics w) (percent_duplicate_reads (qc_data st))\<rparr>,
        staging_delete := staging_delete st @
          [sortmerged_bam a,
           sortmerged_bam a @ ''.bai'',
           steric_filter_bam a,
           unique_bam a,
           duprm_bam a,
           unmappedrm_bam a,
           unmappedrm_bam a @ ''.bai'',
           chrmrm_bam a],
        trace := trace st @
          [Run (novosort c)
             [Parameter [''--threads'', novosort_threads c],
              Parameter [''--tmpcompression'', ''6''],
              Parameter [''--tmpdir'', tmp_dir a],
              Parameter (bwa_bam_outs st),
              Redirect STDOUT (sortmerged_bam a),
              Redirect STDERR (os_path_join (logs_dir a) ''novosort.log'')],
           Run (samtools_index c) [Parameter [sortmerged_bam a]],
           StericFilter (sortmerged_bam a) (steric_filter_bam a)
             (steric_filter (sortmerged_reads w) []),
           Run (picard_mark_dup c)
             [Parameter [''INPUT='' @ steric_filter_bam a],
              Parameter [''OUTPUT='' @ duprm_bam a],
              Parameter [''TMP_DIR='' @ tmp_dir a],
              Parameter [''METRICS_FILE='' @ markduplicates_metrics_filepath a],
              Parameter [''REMOVE_DUPLICATES=true''],
              Parameter [''VALIDATION_STRINGENCY=LENIENT''],
              Redirect BOTH (os_path_join (logs_dir a) ''mark_dup.log'')],
           OpenRead (markduplicates_metrics_filepath a),
           Run (samtools_view c)
             [Parameter [''-b''],
              Parameter [''-F'', ''256''],
              Parameter [''-q'', ''10''],
              Parameter [''-o'', unique_bam a],
              Parameter [duprm_bam a]],
           Run (samtools_view c)
             [Parameter [''-b''],
              Parameter [''-F'', ''12''],
              Parameter [''-o'', unmappedrm_bam a],
              Parameter [unique_bam a]],
           Run (samtools_index c) [Parameter [unmappedrm_bam a]],
           Run (samtools_view c)
             ([Parameter [''-b''],
               Parameter [''-o'', chrmrm_bam a],
               Parameter [unmappedrm_bam a]] @ all_chr)]\<rparr>)"

subsection \<open>Stage 5: blacklist and shift (lines 390 to 441)\<close>


subsection \<open>Stage 6: tag directory and peak calling (lines 443 to 494)\<close>


subsection \<open>The driver\<close>


definition initial_qc_data :: qc_record where
  "initial_qc_data =
     \<lparr>total_raw_reads_counts = [],
      trimmed_reads_counts = [],
      num_reads_mapped = [],
      percent_duplicate_reads = ''0'',
      num_unique_reads_mapped = [],
      num_mtDNA_reads_mapped = [],
      num_reads_mapped_after_filtering = ''-1'',
      num_peaks_called = ''-1''\<rparr>"

definition initial_state :: "pipeline_args \<Rightarrow> pipeline_state" where
  "initial_state a =
     \<lparr>read_pairs = reads a,
      staging_delete = [tmp_dir a],
      bwa_bam_outs = [],
      qc_data = initial_qc_data,
      trace = [Call [''mkdir'', ''-p'', output_dir a, tmp_dir a, logs_dir a]]\<rparr>"



section \<open>Concrete inputs\<close>

text \<open>The genome size file and table \<^verbatim>\<open>{"chr1": 100}\<close>, and interval records with
  their fields separated by tabs, each on a line of its own.\<close>

definition example_genome_sizes_file :: string where
  "example_genome_sizes_file = ''chr1'' @ TAB @ ''100'' @ NL"

definition example_genome_sizes :: "string \<rightharpoonup> int" where
  "example_genome_sizes = [''chr1'' \<mapsto> 100]"

definition bed_line :: "string list \<Rightarrow> string" where
  "bed_line record = py_join TAB record @ NL"

definition no_files :: shift_files where
  "no_files = \<lparr>output_bed = [], log_file = []\<rparr>"

text \<open>Five alignment records with the fragment lengths 10, 38, -38, 37, -50.\<close>

definition example_read :: "string \<Rightarrow> int \<Rightarrow> aligned_segment" where
  "example_read name tlen = \<lparr>query_name = name, template_length = tlen\<rparr>"

definition example_reads :: "aligned_segment list" where
  "example_reads =
     [example_read ''r1'' 10, example_read ''r2'' 38, example_read ''r3'' (- 38),
      example_read ''r4'' 37, example_read ''r5'' (- 50)]"

text \<open>A MarkDuplicates report with a comment line, the header row and the rows of two
  libraries.\<close>

definition example_markdup_metrics :: string where
  "example_markdup_metrics =
     ''## METRICS CLASS'' @ TAB @ ''picard.sam.DuplicationMetrics'' @ NL
     @ bed_line [''LIBRARY'', ''UNPAIRED_READS_EXAMINED'', ''READ_PAIRS_EXAMINED'',
         ''UNMAPPED_READS'', ''UNPAIRED_READ_DUPLICATES'', ''READ_PAIR_DUPLICATES'',
         ''READ_PAIR_OPTICAL_DUPLICATES'', ''PERCENT_DUPLICATION'', ''ESTIMATED_LIBRARY_SIZE'']
     @ bed_line [''libA'', ''1'', ''20'', ''3'', ''0'', ''2'', ''0'', ''0.10'', ''100'']
     @ bed_line [''libB'', ''1'', ''20'', ''3'', ''0'', ''4'', ''0'', ''0.20'', ''200'']"

text \<open>A run: one read pair, the library \<open>lib\<close>, the output directory \<open>/out\<close>.\<close>

definition example_args :: pipeline_args where
  "example_args =
     \<lparr>reads = [''a_1.fastq.gz:a_2.fastq.gz''],
      output_dir = ''/out'',
      lib = ''lib'',
      step = 5,
      forward_adapter = ''ZZZ'',
      reverse_adapter = ''ZZZ''\<rparr>"

definition example_config :: pipeline_config where
  "example_config =
     \<lparr>cutadapt_path = ''cutadapt'',
      bwa_path = ''bwa'',
      bwa_threads = ''4'',
      bwa_index_dir = ''/ref/genome.fa'',
      fastqc_path = ''fastqc'',
      samtools_path = ''samtools'',
      novosort_path = ''novosort'',
      novosort_threads = ''4'',
      picard_path = ''java -jar /opt/picard.jar'',
      bedtools_path = ''bedtools'',
      bedtools_blacklist_bed = ''/ref/blacklist.bed'',
      bedtools_genome_sizes = ''/ref/genome.sizes'',
      makeTagDirectory_path = ''makeTagDirectory'',
      findPeaks_path = ''findPeaks'',
      pos2bed_path = ''pos2bed.pl''\<rparr>"

definition example_world :: world where
  "example_world =
     \<lparr>wc_lines = (\<lambda>filepath. ''400''),
      flagstat_report = (\<lambda>filepath. None),
      sortmerged_reads = example_reads,
      markdup_metrics = Some example_markdup_metrics,
      unshifted_bed_text = bed_line [''chr1'', ''10'', ''20'', ''name'', ''0'', ''-''],
      genome_sizes_text = example_genome_sizes_file,
      shift_reads_log = []\<rparr>"

section \<open>The claims in the words of the specification\<close>

text \<open>A data row of the metrics report, in the words of the specification: a non-comment
  row with exactly 9 tab-separated fields whose 8th field (index 7) matches the numeric
  pattern.\<close>

definition is_data_row :: "string \<Rightarrow> bool" where
  "is_data_row line =
     (line \<noteq> [] \<and> hd line \<noteq> CHR ''#'' \<and> length (fields_of line) = 9
      \<and> re_match_digits (fields_of line ! 7))"











section \<open>The Coordinate Shifter, line by line\<close>

lemma shift_line_other_strand:
  assumes "parse_record (fields_of line) = Inr (chrom, start, end, strand)"
    and "strand \<noteq> ''+''" and "strand \<noteq> ''-''"
  shows "shift_line gs m p line fs = Inr (log_skip ''Mal-formatted line in file, skipping:'' line fs)"
  using assms by (simp add: shift_line_def shifted_coordinates_def log_skip_def)

lemma shift_line_valid_strand:
  assumes "parse_record (fields_of line) = Inr (chrom, start, end, strand)"
    and "shifted_coordinates strand start end m p = Some (ns, ne)"
  shows "shift_line gs m p line fs =
     (case within_genome_boundry chrom ns gs of
        Inl e \<Rightarrow> Inl e
      | Inr False \<Rightarrow> Inr (log_skip ''Shift start site beyond chromosome boundry:'' line fs)
      | Inr True \<Rightarrow>
         (case within_genome_boundry chrom ne gs of
            Inl e \<Rightarrow> Inl e
          | Inr False \<Rightarrow> Inr (log_skip ''Shift end site beyond chromosome boundry:'' line fs)
          | Inr True \<Rightarrow>
              Inr (write_record ([chrom, py_str ns, py_str ne] @ drop 3 (fields_of line)) fs)))"
  using assms
  by (simp add: shift_line_def log_skip_def write_record_def split: sum.splits bool.splits)

lemma shift_line_frame:
  "shift_line gs m p line fs =
     (case shift_line gs m p line \<lparr>output_bed = [], log_file = []\<rparr> of
        Inl e \<Rightarrow> Inl e
      | Inr d \<Rightarrow> Inr (fs\<lparr>output_bed := output_bed fs @ output_bed d,
                         log_file := log_file fs @ log_file d\<rparr>))"
  unfolding shift_line_def Let_def
  by (cases "parse_record (fields_of line)")
     (auto simp: to_log_def split: sum.splits option.splits bool.splits prod.splits)

lemma shift_line_Inr:
  assumes "shift_line gs m p line fs = Inr fs'"
  shows "fs' = fs\<lparr>output_bed := output_bed fs @ emitted_text gs m p line,
                   log_file := log_file fs @ logged_text gs m p line\<rparr>"
  using assms
  by (subst (asm) shift_line_frame) (auto simp: emitted_text_def logged_text_def split: sum.splits)

lemma shift_line_Inl:
  "shift_line gs m p line fs = Inl e \<longleftrightarrow> shift_line gs m p line fs0 = Inl e"
  by (subst shift_line_frame, subst (2) shift_line_frame) (auto split: sum.splits)

lemma emitted_text_cases:
  assumes "parse_record (fields_of line) = Inr (chrom, start, end, strand)"
    and "shifted_coordinates strand start end m p = Some (ns, ne)"
  shows "emitted_text gs m p line = [] \<or>
         emitted_text gs m p line =
           py_join TAB ([chrom, py_str ns, py_str ne] @ drop 3 (fields_of line)) @ NL"
  unfolding emitted_text_def shift_line_valid_strand[OF assms]
  by (simp add: log_skip_def to_log_def write_record_def split: sum.splits bool.splits)

lemma emitted_text_other_strand:
  assumes "parse_record (fields_of line) = Inr (chrom, start, end, strand)"
    and "strand \<noteq> ''+''" and "strand \<noteq> ''-''"
  shows "emitted_text gs m p line = []"
  unfolding emitted_text_def shift_line_other_strand[OF assms]
  by (simp add: log_skip_def to_log_def)

section \<open>The Coordinate Shifter, file by file\<close>

lemma shift_lines_Inr:
  "shift_lines gs m p lines fs = Inr fs' \<Longrightarrow>
     fs' = fs\<lparr>output_bed := output_bed fs @ concat (map (emitted_text gs m p) lines),
              log_file := log_file fs @ concat (map (logged_text gs m p) lines)\<rparr>"
proof (induction lines arbitrary: fs)
  case Nil
  then show ?case by simp
next
  case (Cons line rest)
  from Cons.prems obtain fs1 where
    1: "shift_line gs m p line fs = Inr fs1" and 2: "shift_lines gs m p rest fs1 = Inr fs'"
    by (auto split: sum.splits)
  show ?case using Cons.IH[OF 2] shift_line_Inr[OF 1] by simp
qed

lemma shift_lines_Inl:
  "shift_lines gs m p lines fs = Inl e \<longleftrightarrow> shift_lines gs m p lines fs0 = Inl e"
proof (induction lines arbitrary: fs fs0)
  case Nil
  then show ?case by simp
next
  case (Cons line rest)
  show ?case
  proof (cases "shift_line gs m p line fs")
    case (Inl e')
    then have "shift_line gs m p line fs0 = Inl e'" using shift_line_Inl by blast
    with Inl show ?thesis by simp
  next
    case (Inr fs1)
    then obtain fs2 where "shift_line gs m p line fs0 = Inr fs2"
      using shift_line_Inl[of gs m p line fs0 _ fs] by (cases "shift_line gs m p line fs0") auto
    with Inr Cons.IH[of fs1 fs2] show ?thesis by simp
  qed
qed

lemma shift_lines_raises:
  assumes "line \<in> set lines" and "shift_line gs m p line fs0 = Inl e"
  shows "\<exists>e'. shift_lines gs m p lines fs = Inl e'"
  using assms(1)
proof (induction lines arbitrary: fs)
  case Nil
  then show ?case by simp
next
  case (Cons l rest)
  show ?case
  proof (cases "shift_line gs m p l fs")
    case (Inl e')
    then show ?thesis by simp
  next
    case (Inr fs1)
    have "l \<noteq> line"
    proof
      assume "l = line"
      with assms(2) have "shift_line gs m p l fs = Inl e" using shift_line_Inl by blast
      with Inr show False by simp
    qed
    with Cons.prems have "line \<in> set rest" by simp
    from Cons.IH[OF this, of fs1] Inr show ?thesis by simp
  qed
qed

lemma shift_lines_total:
  assumes "\<And>line. line \<in> set lines \<Longrightarrow> \<exists>fs'. shift_line gs m p line no_files = Inr fs'"
  shows "\<exists>fs'. shift_lines gs m p lines fs = Inr fs'"
  using assms
proof (induction lines arbitrary: fs)
  case Nil
  then show ?case by simp
next
  case (Cons l rest)
  from Cons.prems[of l] obtain d where d: "shift_line gs m p l no_files = Inr d" by auto
  have "\<exists>fs1. shift_line gs m p l fs = Inr fs1"
  proof (cases "shift_line gs m p l fs")
    case (Inl e)
    then have "shift_line gs m p l no_files = Inl e" using shift_line_Inl by blast
    with d show ?thesis by simp
  next
    case (Inr fs1)
    then show ?thesis by blast
  qed
  then obtain fs1 where 1: "shift_line gs m p l fs = Inr fs1" ..
  have "\<exists>fs'. shift_lines gs m p rest fs1 = Inr fs'"
    by (rule Cons.IH) (use Cons.prems in auto)
  with 1 show ?case by simp
qed

lemma shift_reads_Inr:
  assumes "shift_reads bed g log0 m p = Inr fs'"
    and "load_genome_sizes (py_lines g) Map.empty = Inr gs"
  shows "fs' = \<lparr>output_bed = concat (map (emitted_text gs m p) (py_lines bed)),
                log_file = log0 @ concat (map (logged_text gs m p) (py_lines bed))\<rparr>"
proof -
  from assms have "shift_lines gs m p (py_lines bed) \<lparr>output_bed = [], log_file = log0\<rparr> = Inr fs'"
    by (simp add: shift_reads_def)
  from shift_lines_Inr[OF this] show ?thesis by simp
qed

lemma shift_reads_raises:
  assumes "line \<in> set (py_lines bed)"
    and "\<And>gs. load_genome_sizes (py_lines g) Map.empty = Inr gs
           \<Longrightarrow> \<exists>e. shift_line gs m p line no_files = Inl e"
  shows "\<exists>e. shift_reads bed g log0 m p = Inl e"
proof (cases "load_genome_sizes (py_lines g) Map.empty")
  case (Inl e)
  then show ?thesis by (simp add: shift_reads_def)
next
  case (Inr gs)
  from assms(2)[OF Inr] obtain e where "shift_line gs m p line no_files = Inl e" ..
  from shift_lines_raises[OF assms(1) this] Inr show ?thesis by (simp add: shift_reads_def)
qed

lemma shift_reads_total:
  assumes "load_genome_sizes (py_lines g) Map.empty = Inr gs"
    and "\<And>line. line \<in> set (py_lines bed) \<Longrightarrow> \<exists>fs'. shift_line gs m p line no_files = Inr fs'"
  shows "\<exists>fs'. shift_reads bed g log0 m p = Inr fs'"
  using shift_lines_total[of "py_lines bed" gs m p, OF assms(2)] assms(1)
  by (simp add: shift_reads_def)

lemma load_example_genome_sizes:
  "load_genome_sizes (py_lines example_genome_sizes_file) Map.empty = Inr example_genome_sizes"
proof -
  have "py_lines example_genome_sizes_file = [example_genome_sizes_file]"
    by code_simp
  moreover have "py_split (CHR 0x09) (py_strip example_genome_sizes_file) = [''chr1'', ''100'']"
    by code_simp
  moreover have "py_int ''100'' = Inr 100" by code_simp
  ultimately show ?thesis by (simp add: example_genome_sizes_def)
qed

lemma py_int_error: "py_int s = Inl e \<Longrightarrow> e = ValueError"
  by (auto simp: py_int_def split: list.splits if_splits)

lemma parse_record_Inr:
  "parse_record record = Inr (chrom, start, end, strand) \<longleftrightarrow>
     6 \<le> length record \<and> chrom = record ! 0 \<and> py_int (record ! 1) = Inr start \<and>
     py_int (record ! 2) = Inr end \<and> strand = record ! 5"
  by (auto simp: parse_record_def split: sum.splits)

lemma parse_record_Inl:
  "parse_record record = Inl e \<longleftrightarrow>
     (e = IndexError \<and> length record < 2) \<or>
     (2 \<le> length record \<and> py_int (record ! 1) = Inl e) \<or>
     (2 \<le> length record \<and> (\<exists>s. py_int (record ! 1) = Inr s) \<and>
        ((e = IndexError \<and> length record < 3) \<or>
         (3 \<le> length record \<and> py_int (record ! 2) = Inl e) \<or>
         (3 \<le> length record \<and> (\<exists>t. py_int (record ! 2) = Inr t) \<and> e = IndexError
            \<and> length record < 6)))"
  by (auto simp: parse_record_def split: sum.splits)

section \<open>Claims about the Coordinate Shifter\<close>

text \<open>
  C1. With the shifts of the pipeline (plus 4, minus 5), a record that parses with strand
  \<open>+\<close> gets the coordinates \<open>(start + 4, end + 4)\<close>, one with strand \<open>-\<close> gets
  \<open>(start - 5, end - 5)\<close>, and when such a record reaches the output it is written with
  these coordinates. A record with any other strand is written to the log (the message,
  then the stripped line) and adds nothing to the output. The output file of a call of
  \<open>shift_reads\<close> that returns is the concatenation, in order, of what each input line
  adds.
\<close>

theorem shift_by_strand:
  assumes "parse_record (fields_of line) = Inr (chrom, start, end, strand)"
  shows "(strand = ''+'' \<longrightarrow>
            shifted_coordinates strand start end MINUS_STRAND_SHIFT PLUS_STRAND_SHIFT
              = Some (start + 4, end + 4)
          \<and> (emitted_text gs MINUS_STRAND_SHIFT PLUS_STRAND_SHIFT line = [] \<or>
             emitted_text gs MINUS_STRAND_SHIFT PLUS_STRAND_SHIFT line =
               py_join TAB ([chrom, py_str (start + 4), py_str (end + 4)] @ drop 3 (fields_of line)) @ NL))
       \<and> (strand = ''-'' \<longrightarrow>
            shifted_coordinates strand start end MINUS_STRAND_SHIFT PLUS_STRAND_SHIFT
              = Some (start - 5, end - 5)
          \<and> (emitted_text gs MINUS_STRAND_SHIFT PLUS_STRAND_SHIFT line = [] \<or>
             emitted_text gs MINUS_STRAND_SHIFT PLUS_STRAND_SHIFT line =
               py_join TAB ([chrom, py_str (start - 5), py_str (end - 5)] @ drop 3 (fields_of line)) @ NL))
       \<and> (strand \<noteq> ''+'' \<and> strand \<noteq> ''-'' \<longrightarrow>
            shift_line gs MINUS_STRAND_SHIFT PLUS_STRAND_SHIFT line fs =
              Inr (fs\<lparr>log_file := log_file fs @ ''Mal-formatted line in file, skipping:'' @ NL
                                      @ py_strip line @ NL\<rparr>)
          \<and> emitted_text gs MINUS_STRAND_SHIFT PLUS_STRAND_SHIFT line = [])
       \<and> (\<forall>bed g log0 fs'.
            shift_reads bed g log0 MINUS_STRAND_SHIFT PLUS_STRAND_SHIFT = Inr fs'
            \<and> load_genome_sizes (py_lines g) Map.empty = Inr gs \<longrightarrow>
            output_bed fs'
              = concat (map (emitted_text gs MINUS_STRAND_SHIFT PLUS_STRAND_SHIFT) (py_lines bed)))"
proof (intro conjI impI allI)
  assume s: "strand = ''+''"
  then show c: "shifted_coordinates strand start end MINUS_STRAND_SHIFT PLUS_STRAND_SHIFT
      = Some (start + 4, end + 4)"
    by (simp add: shifted_coordinates_def PLUS_STRAND_SHIFT_def)
  show "emitted_text gs MINUS_STRAND_SHIFT PLUS_STRAND_SHIFT line = [] \<or>
        emitted_text gs MINUS_STRAND_SHIFT PLUS_STRAND_SHIFT line =
          py_join TAB ([chrom, py_str (start + 4), py_str (end + 4)] @ drop 3 (fields_of line)) @ NL"
    by (rule emitted_text_cases[OF assms c])
next
  assume s: "strand = ''-''"
  then show c: "shifted_coordinates strand start end MINUS_STRAND_SHIFT PLUS_STRAND_SHIFT
      = Some (start - 5, end - 5)"
    by (simp add: shifted_coordinates_def MINUS_STRAND_SHIFT_def)
  show "emitted_text gs MINUS_STRAND_SHIFT PLUS_STRAND_SHIFT line = [] \<or>
        emitted_text gs MINUS_STRAND_SHIFT PLUS_STRAND_SHIFT line =
          py_join TAB ([chrom, py_str (start - 5), py_str (end - 5)] @ drop 3 (fields_of line)) @ NL"
    by (rule emitted_text_cases[OF assms c])
next
  assume s: "strand \<noteq> ''+'' \<and> strand \<noteq> ''-''"
  then show "shift_line gs MINUS_STRAND_SHIFT PLUS_STRAND_SHIFT line fs =
      Inr (fs\<lparr>log_file := log_file fs @ ''Mal-formatted line in file, skipping:'' @ NL
                              @ py_strip line @ NL\<rparr>)"
    using shift_line_other_strand[OF assms, of gs MINUS_STRAND_SHIFT PLUS_STRAND_SHIFT fs]
    by (simp add: log_skip_def to_log_def)
  from s show "emitted_text gs MINUS_STRAND_SHIFT PLUS_STRAND_SHIFT line = []"
    using emitted_text_other_strand[OF assms] by simp
next
  fix bed g log0 fs'
  assume "shift_reads bed g log0 MINUS_STRAND_SHIFT PLUS_STRAND_SHIFT = Inr fs'
      \<and> load_genome_sizes (py_lines g) Map.empty = Inr gs"
  then have "fs' = \<lparr>output_bed
        = concat (map (emitted_text gs MINUS_STRAND_SHIFT PLUS_STRAND_SHIFT) (py_lines bed)),
      log_file = log0
        @ concat (map (logged_text gs MINUS_STRAND_SHIFT PLUS_STRAND_SHIFT) (py_lines bed))\<rparr>"
    using shift_reads_Inr by blast
  then show "output_bed fs'
      = concat (map (emitted_text gs MINUS_STRAND_SHIFT PLUS_STRAND_SHIFT) (py_lines bed))"
    by simp
qed

theorem shift_by_strand_witness:
  "parse_record (fields_of (bed_line [''chr1'', ''10'', ''20'', ''name'', ''0'', ''+'']))
     = Inr (''chr1'', 10, 20, ''+'')
   \<and> emitted_text example_genome_sizes MINUS_STRAND_SHIFT PLUS_STRAND_SHIFT
        (bed_line [''chr1'', ''10'', ''20'', ''name'', ''0'', ''+''])
       = bed_line [''chr1'', ''14'', ''24'', ''name'', ''0'', ''+'']
   \<and> parse_record (fields_of (bed_line [''chr1'', ''10'', ''20'', ''name'', ''0'', ''-'']))
     = Inr (''chr1'', 10, 20, ''-'')
   \<and> emitted_text example_genome_sizes MINUS_STRAND_SHIFT PLUS_STRAND_SHIFT
        (bed_line [''chr1'', ''10'', ''20'', ''name'', ''0'', ''-''])
       = bed_line [''chr1'', ''5'', ''15'', ''name'', ''0'', ''-'']
   \<and> parse_record (fields_of (bed_line [''chr1'', ''10'', ''20'', ''name'', ''0'', ''.'']))
     = Inr (''chr1'', 10, 20, ''.'')
   \<and> shift_line example_genome_sizes MINUS_STRAND_SHIFT PLUS_STRAND_SHIFT
        (bed_line [''chr1'', ''10'', ''20'', ''name'', ''0'', ''.'']) no_files
       = Inr \<lparr>output_bed = [],
              log_file = ''Mal-formatted line in file, skipping:'' @ NL
                @ py_join TAB [''chr1'', ''10'', ''20'', ''name'', ''0'', ''.''] @ NL\<rparr>
   \<and> (\<exists>fs'. shift_reads
          (bed_line [''chr1'', ''10'', ''20'', ''name'', ''0'', ''.'']
           @ bed_line [''chr1'', ''10'', ''20'', ''name'', ''0'', ''-''])
          example_genome_sizes_file [] MINUS_STRAND_SHIFT PLUS_STRAND_SHIFT = Inr fs'
        \<and> load_genome_sizes (py_lines example_genome_sizes_file) Map.empty
            = Inr example_genome_sizes
        \<and> output_bed fs' = bed_line [''chr1'', ''5'', ''15'', ''name'', ''0'', ''-''])"
proof -
  let ?plus = "bed_line [''chr1'', ''10'', ''20'', ''name'', ''0'', ''+'']"
  let ?minus = "bed_line [''chr1'', ''10'', ''20'', ''name'', ''0'', ''-'']"
  let ?dot = "bed_line [''chr1'', ''10'', ''20'', ''name'', ''0'', ''.'']"
  have p: "parse_record (fields_of ?plus) = Inr (''chr1'', 10, 20, ''+'')" by code_simp
  have m: "parse_record (fields_of ?minus) = Inr (''chr1'', 10, 20, ''-'')" by code_simp
  have d: "parse_record (fields_of ?dot) = Inr (''chr1'', 10, 20, ''.'')" by code_simp
  have ep: "emitted_text example_genome_sizes MINUS_STRAND_SHIFT PLUS_STRAND_SHIFT ?plus \<noteq> []"
    by code_simp
  have em: "emitted_text example_genome_sizes MINUS_STRAND_SHIFT PLUS_STRAND_SHIFT ?minus \<noteq> []"
    by code_simp
  have fp: "drop 3 (fields_of ?plus) = [''name'', ''0'', ''+'']" by code_simp
  have fm: "drop 3 (fields_of ?minus) = [''name'', ''0'', ''-'']" by code_simp
  have sp: "py_str 14 = ''14'' \<and> py_str 24 = ''24'' \<and> py_str 5 = ''5'' \<and> py_str 15 = ''15''"
    by code_simp
  have sd: "py_strip ?dot = py_join TAB [''chr1'', ''10'', ''20'', ''name'', ''0'', ''.'']"
    by code_simp
  have run: "shift_reads (?dot @ ?minus) example_genome_sizes_file []
        MINUS_STRAND_SHIFT PLUS_STRAND_SHIFT
      = Inr \<lparr>output_bed = bed_line [''chr1'', ''5'', ''15'', ''name'', ''0'', ''-''],
             log_file = ''Mal-formatted line in file, skipping:'' @ NL
                @ py_join TAB [''chr1'', ''10'', ''20'', ''name'', ''0'', ''.''] @ NL\<rparr>"
    by code_simp
  have ls: "py_lines (?dot @ ?minus) = [?dot, ?minus]" by code_simp
  note P = shift_by_strand[OF p, of example_genome_sizes no_files]
  note M = shift_by_strand[OF m, of example_genome_sizes no_files]
  note D = shift_by_strand[OF d, of example_genome_sizes no_files]
  from P ep fp sp have 1: "emitted_text example_genome_sizes MINUS_STRAND_SHIFT PLUS_STRAND_SHIFT ?plus
       = bed_line [''chr1'', ''14'', ''24'', ''name'', ''0'', ''+'']"
    by (simp add: bed_line_def)
  from M em fm sp have 2: "emitted_text example_genome_sizes MINUS_STRAND_SHIFT PLUS_STRAND_SHIFT ?minus
       = bed_line [''chr1'', ''5'', ''15'', ''name'', ''0'', ''-'']"
    by (simp add: bed_line_def)
  from D sd have 3: "shift_line example_genome_sizes MINUS_STRAND_SHIFT PLUS_STRAND_SHIFT ?dot no_files
       = Inr \<lparr>output_bed = [],
              log_file = ''Mal-formatted line in file, skipping:'' @ NL
                @ py_join TAB [''chr1'', ''10'', ''20'', ''name'', ''0'', ''.''] @ NL\<rparr>"
    by (simp add: no_files_def)
  from D run load_example_genome_sizes
  have "output_bed \<lparr>output_bed = bed_line [''chr1'', ''5'', ''15'', ''name'', ''0'', ''-''],
             log_file = ''Mal-formatted line in file, skipping:'' @ NL
                @ py_join TAB [''chr1'', ''10'', ''20'', ''name'', ''0'', ''.''] @ NL\<rparr>
      = concat (map (emitted_text example_genome_sizes MINUS_STRAND_SHIFT PLUS_STRAND_SHIFT)
          (py_lines (?dot @ ?minus)))"
    by blast
  with run load_example_genome_sizes
  have 4: "\<exists>fs'. shift_reads (?dot @ ?minus) example_genome_sizes_file []
          MINUS_STRAND_SHIFT PLUS_STRAND_SHIFT = Inr fs'
        \<and> load_genome_sizes (py_lines example_genome_sizes_file) Map.empty
            = Inr example_genome_sizes
        \<and> output_bed fs' = bed_line [''chr1'', ''5'', ''15'', ''name'', ''0'', ''-'']"
    by simp
  from p m d 1 2 3 4 show ?thesis by blast
qed

section \<open>More about lines that raise\<close>

lemma shift_line_known_chromosome:
  assumes "parse_record (fields_of line) = Inr (chrom, start, end, strand)"
    and "chrom \<in> dom gs"
  shows "\<exists>fs'. shift_line gs m p line fs = Inr fs'"
proof (cases "shifted_coordinates strand start end m p")
  case None
  then show ?thesis using assms(1) by (simp add: shift_line_def)
next
  case (Some c)
  obtain ns ne where c: "c = (ns, ne)" by (cases c)
  from assms(2) obtain len where "gs chrom = Some len" by auto
  then show ?thesis
    unfolding shift_line_valid_strand[OF assms(1) Some[unfolded c]]
    by (simp add: within_genome_boundry_def)
qed

lemma malformed_log_iff:
  "shift_line gs m p line fs =
      Inr (fs\<lparr>log_file := log_file fs @ ''Mal-formatted line in file, skipping:'' @ NL
              @ py_strip line @ NL\<rparr>)
   \<longleftrightarrow> (\<exists>chrom start end strand.
          parse_record (fields_of line) = Inr (chrom, start, end, strand)
          \<and> strand \<noteq> ''+'' \<and> strand \<noteq> ''-'')"
proof
  assume r: "shift_line gs m p line fs =
      Inr (fs\<lparr>log_file := log_file fs @ ''Mal-formatted line in file, skipping:'' @ NL
              @ py_strip line @ NL\<rparr>)"
  show "\<exists>chrom start end strand.
          parse_record (fields_of line) = Inr (chrom, start, end, strand)
          \<and> strand \<noteq> ''+'' \<and> strand \<noteq> ''-''"
  proof (cases "parse_record (fields_of line)")
    case (Inl e)
    with r show ?thesis by (simp add: shift_line_def)
  next
    case (Inr t)
    obtain chrom start "end" strand where t: "t = (chrom, start, end, strand)" by (cases t)
    note pr = Inr[unfolded t]
    show ?thesis
    proof (cases "shifted_coordinates strand start end m p")
      case None
      then have "strand \<noteq> ''+'' \<and> strand \<noteq> ''-''"
        by (simp add: shifted_coordinates_def split: if_splits)
      with pr show ?thesis by blast
    next
      case (Some c)
      obtain ns ne where c: "c = (ns, ne)" by (cases c)
      from r have False
        unfolding shift_line_valid_strand[OF pr Some[unfolded c]]
        by (cases fs)
           (auto simp: log_skip_def to_log_def write_record_def NL_def
                 split: sum.splits bool.splits)
      then show ?thesis ..
    qed
  qed
next
  assume "\<exists>chrom start end strand.
          parse_record (fields_of line) = Inr (chrom, start, end, strand)
          \<and> strand \<noteq> ''+'' \<and> strand \<noteq> ''-''"
  then obtain chrom start "end" strand where
    pr: "parse_record (fields_of line) = Inr (chrom, start, end, strand)"
    and s: "strand \<noteq> ''+''" "strand \<noteq> ''-''" by blast
  show "shift_line gs m p line fs =
      Inr (fs\<lparr>log_file := log_file fs @ ''Mal-formatted line in file, skipping:'' @ NL
              @ py_strip line @ NL\<rparr>)"
    using shift_line_other_strand[OF pr s] by (simp add: log_skip_def to_log_def)
qed

lemma length_py_split: "length (py_split c s) = Suc (length (filter (\<lambda>x. x = c) s))"
  by (induction s) (auto split: list.splits)

lemma length_filter_dropWhile: "length (filter P (dropWhile Q xs)) \<le> length (filter P xs)"
  by (induction xs) auto

lemma length_filter_rev: "length (filter P (rev xs)) = length (filter P xs)"
  by (simp add: rev_filter[symmetric])

lemma length_filter_py_strip: "length (filter P (py_strip s)) \<le> length (filter P s)"
proof -
  have "length (filter P (py_strip s))
      = length (filter P (dropWhile is_space (rev (dropWhile is_space s))))"
    unfolding py_strip_def by (rule length_filter_rev)
  also have "\<dots> \<le> length (filter P (rev (dropWhile is_space s)))"
    by (rule length_filter_dropWhile)
  also have "\<dots> = length (filter P (dropWhile is_space s))"
    by (rule length_filter_rev)
  also have "\<dots> \<le> length (filter P s)"
    by (rule length_filter_dropWhile)
  finally show ?thesis .
qed

lemma fields_of_le: "length (fields_of line) \<le> length (py_split (CHR 0x09) line)"
  by (simp add: length_py_split length_filter_py_strip)

lemma shift_line_unparsable:
  assumes "length (fields_of line) < 6 \<or> py_int (fields_of line ! 1) = Inl ValueError
           \<or> py_int (fields_of line ! 2) = Inl ValueError"
  shows "shift_line gs m p line fs = Inl IndexError \<or> shift_line gs m p line fs = Inl ValueError"
proof (cases "parse_record (fields_of line)")
  case (Inl e)
  then have "e = IndexError \<or> e = ValueError"
    by (auto simp: parse_record_Inl dest: py_int_error)
  moreover from Inl have "shift_line gs m p line fs = Inl e" by (simp add: shift_line_def)
  ultimately show ?thesis by auto
next
  case (Inr t)
  obtain chrom start "end" strand where "t = (chrom, start, end, strand)" by (cases t)
  with Inr assms show ?thesis by (auto simp: parse_record_Inr)
qed

section \<open>Further claims about the Coordinate Shifter\<close>

text \<open>
  C2, as amended. For a record that parses, with strand \<open>+\<close> or \<open>-\<close> and a chromosome of the genome
  size table: it is written to the output exactly when both shifted coordinates lie in
  \<open>[1, length]\<close>; otherwise the run goes on, the output is unchanged and the log
  receives the message and the stripped input line (the start is checked first). A record
  that adds anything to the output has a chromosome of the table and both shifted
  coordinates within its bounds. With the table \<open>chr1: 100\<close>, the record
  \<open>chr1 96 99 name 0 +\<close> (tab separated) gets the end 103 and is dropped.
\<close>

theorem shifted_within_chromosome:
  assumes "parse_record (fields_of line) = Inr (chrom, start, end, strand)"
    and "shifted_coordinates strand start end m p = Some (ns, ne)"
  shows "(\<forall>len. gs chrom = Some len \<longrightarrow>
            shift_line gs m p line fs =
              (if \<not> (1 \<le> ns \<and> ns \<le> len) then
                 Inr (fs\<lparr>log_file := log_file fs @ ''Shift start site beyond chromosome boundry:''
                        @ NL @ py_strip line @ NL\<rparr>)
               else if \<not> (1 \<le> ne \<and> ne \<le> len) then
                 Inr (fs\<lparr>log_file := log_file fs @ ''Shift end site beyond chromosome boundry:''
                        @ NL @ py_strip line @ NL\<rparr>)
               else
                 Inr (fs\<lparr>output_bed := output_bed fs
                        @ py_join TAB ([chrom, py_str ns, py_str ne] @ drop 3 (fields_of line))
                        @ NL\<rparr>)))
       \<and> (emitted_text gs m p line \<noteq> [] \<longrightarrow>
            (\<exists>len. gs chrom = Some len \<and> 1 \<le> ns \<and> ns \<le> len \<and> 1 \<le> ne \<and> ne \<le> len))
       \<and> shift_reads (bed_line [''chr1'', ''96'', ''99'', ''name'', ''0'', ''+''])
            example_genome_sizes_file [] MINUS_STRAND_SHIFT PLUS_STRAND_SHIFT
          = Inr \<lparr>output_bed = [],
                 log_file = ''Shift end site beyond chromosome boundry:'' @ NL
                   @ py_join TAB [''chr1'', ''96'', ''99'', ''name'', ''0'', ''+''] @ NL\<rparr>"
proof (intro conjI allI impI)
  fix len assume "gs chrom = Some len"
  then show "shift_line gs m p line fs =
              (if \<not> (1 \<le> ns \<and> ns \<le> len) then
                 Inr (fs\<lparr>log_file := log_file fs @ ''Shift start site beyond chromosome boundry:''
                        @ NL @ py_strip line @ NL\<rparr>)
               else if \<not> (1 \<le> ne \<and> ne \<le> len) then
                 Inr (fs\<lparr>log_file := log_file fs @ ''Shift end site beyond chromosome boundry:''
                        @ NL @ py_strip line @ NL\<rparr>)
               else
                 Inr (fs\<lparr>output_bed := output_bed fs
                        @ py_join TAB ([chrom, py_str ns, py_str ne] @ drop 3 (fields_of line))
                        @ NL\<rparr>))"
    unfolding shift_line_valid_strand[OF assms]
    by (simp add: within_genome_boundry_def log_skip_def to_log_def write_record_def)
next
  assume e: "emitted_text gs m p line \<noteq> []"
  show "\<exists>len. gs chrom = Some len \<and> 1 \<le> ns \<and> ns \<le> len \<and> 1 \<le> ne \<and> ne \<le> len"
  proof (cases "gs chrom")
    case None
    with e show ?thesis
      unfolding emitted_text_def shift_line_valid_strand[OF assms]
      by (simp add: within_genome_boundry_def log_skip_def to_log_def split: if_splits)
  next
    case (Some len)
    with e show ?thesis
      unfolding emitted_text_def shift_line_valid_strand[OF assms]
      by (simp add: within_genome_boundry_def log_skip_def to_log_def split: if_splits)
  qed
next
  show "shift_reads (bed_line [''chr1'', ''96'', ''99'', ''name'', ''0'', ''+''])
            example_genome_sizes_file [] MINUS_STRAND_SHIFT PLUS_STRAND_SHIFT
          = Inr \<lparr>output_bed = [],
                 log_file = ''Shift end site beyond chromosome boundry:'' @ NL
                   @ py_join TAB [''chr1'', ''96'', ''99'', ''name'', ''0'', ''+''] @ NL\<rparr>"
    by code_simp
qed

theorem shifted_within_chromosome_witness:
  "parse_record (fields_of (bed_line [''chr1'', ''96'', ''99'', ''name'', ''0'', ''+'']))
     = Inr (''chr1'', 96, 99, ''+'')
   \<and> shifted_coordinates ''+'' 96 99 MINUS_STRAND_SHIFT PLUS_STRAND_SHIFT = Some (100, 103)
   \<and> example_genome_sizes ''chr1'' = Some 100
   \<and> shift_line example_genome_sizes MINUS_STRAND_SHIFT PLUS_STRAND_SHIFT
        (bed_line [''chr1'', ''96'', ''99'', ''name'', ''0'', ''+'']) no_files
       = Inr \<lparr>output_bed = [],
              log_file = ''Shift end site beyond chromosome boundry:'' @ NL
                @ py_join TAB [''chr1'', ''96'', ''99'', ''name'', ''0'', ''+''] @ NL\<rparr>
   \<and> parse_record (fields_of (bed_line [''chr1'', ''10'', ''20'', ''name'', ''0'', ''-'']))
     = Inr (''chr1'', 10, 20, ''-'')
   \<and> shifted_coordinates ''-'' 10 20 MINUS_STRAND_SHIFT PLUS_STRAND_SHIFT = Some (5, 15)
   \<and> emitted_text example_genome_sizes MINUS_STRAND_SHIFT PLUS_STRAND_SHIFT
        (bed_line [''chr1'', ''10'', ''20'', ''name'', ''0'', ''-'']) \<noteq> []
   \<and> (\<exists>len. example_genome_sizes ''chr1'' = Some len \<and> (1::int) \<le> 5 \<and> 5 \<le> len \<and> (1::int) \<le> 15 \<and> 15 \<le> len)"
proof -
  let ?plus = "bed_line [''chr1'', ''96'', ''99'', ''name'', ''0'', ''+'']"
  let ?minus = "bed_line [''chr1'', ''10'', ''20'', ''name'', ''0'', ''-'']"
  have p: "parse_record (fields_of ?plus) = Inr (''chr1'', 96, 99, ''+'')" by code_simp
  have cp: "shifted_coordinates ''+'' 96 99 MINUS_STRAND_SHIFT PLUS_STRAND_SHIFT = Some (100, 103)"
    by code_simp
  have m: "parse_record (fields_of ?minus) = Inr (''chr1'', 10, 20, ''-'')" by code_simp
  have cm: "shifted_coordinates ''-'' 10 20 MINUS_STRAND_SHIFT PLUS_STRAND_SHIFT = Some (5, 15)"
    by code_simp
  have g: "example_genome_sizes ''chr1'' = Some 100" by (simp add: example_genome_sizes_def)
  have em: "emitted_text example_genome_sizes MINUS_STRAND_SHIFT PLUS_STRAND_SHIFT ?minus \<noteq> []"
    by code_simp
  have sp: "py_strip ?plus = py_join TAB [''chr1'', ''96'', ''99'', ''name'', ''0'', ''+'']"
    by code_simp
  note P = shifted_within_chromosome[OF p cp, of example_genome_sizes no_files]
  note M = shifted_within_chromosome[OF m cm, of example_genome_sizes no_files]
  from P g sp have 1: "shift_line example_genome_sizes MINUS_STRAND_SHIFT PLUS_STRAND_SHIFT ?plus no_files
       = Inr \<lparr>output_bed = [],
              log_file = ''Shift end site beyond chromosome boundry:'' @ NL
                @ py_join TAB [''chr1'', ''96'', ''99'', ''name'', ''0'', ''+''] @ NL\<rparr>"
    by (simp add: no_files_def)
  from M em have 2: "\<exists>len. example_genome_sizes ''chr1'' = Some len \<and> (1::int) \<le> 5 \<and> 5 \<le> len \<and> (1::int) \<le> 15 \<and> 15 \<le> len"
    by blast
  from p cp g 1 m cm em 2 show ?thesis by blast
qed

text \<open>
  C2, as stated: the chromosome \<open>chrZ\<close> is absent from the table \<open>chr1: 100\<close>. The record
  \<open>chrZ 10 2 name 0 -\<close> gets the coordinates \<open>(5, -3)\<close>; its end violates the lower
  bound, and yet the record is not logged and dropped: the check of the start reads the
  table and raises \<^verbatim>\<open>KeyError\<close>.
\<close>

theorem bound_violation_raises_counterexample:
  "example_genome_sizes ''chrZ'' = None
   \<and> parse_record (fields_of (bed_line [''chrZ'', ''10'', ''2'', ''name'', ''0'', ''-'']))
       = Inr (''chrZ'', 10, 2, ''-'')
   \<and> shifted_coordinates ''-'' 10 2 MINUS_STRAND_SHIFT PLUS_STRAND_SHIFT = Some (5, - 3)
   \<and> \<not> (1::int) \<le> - 3
   \<and> shift_reads (bed_line [''chrZ'', ''10'', ''2'', ''name'', ''0'', ''-''])
        example_genome_sizes_file [] MINUS_STRAND_SHIFT PLUS_STRAND_SHIFT = Inl KeyError"
proof -
  have "example_genome_sizes ''chrZ'' = None" by (simp add: example_genome_sizes_def)
  moreover have "parse_record (fields_of (bed_line [''chrZ'', ''10'', ''2'', ''name'', ''0'', ''-'']))
       = Inr (''chrZ'', 10, 2, ''-'')" by code_simp
  moreover have "shifted_coordinates ''-'' 10 2 MINUS_STRAND_SHIFT PLUS_STRAND_SHIFT = Some (5, - 3)"
    by code_simp
  moreover have "shift_reads (bed_line [''chrZ'', ''10'', ''2'', ''name'', ''0'', ''-''])
        example_genome_sizes_file [] MINUS_STRAND_SHIFT PLUS_STRAND_SHIFT = Inl KeyError"
    by code_simp
  ultimately show ?thesis by simp
qed

text \<open>
  C3, as amended. With the table \<open>chr1: 100\<close>, the record \<open>chr1 10 20 name 0 -\<close> (tab
  separated) gets the coordinates \<open>(5, 15)\<close>, both within the bounds, and the output file
  is the single line \<open>chr1 5 15 name 0 -\<close>: every field after the third is passed
  through, the strand among them.
\<close>

theorem emitted_record_keeps_strand:
  "shifted_coordinates ''-'' 10 20 MINUS_STRAND_SHIFT PLUS_STRAND_SHIFT = Some (5, 15)
   \<and> within_genome_boundry ''chr1'' 5 example_genome_sizes = Inr True
   \<and> within_genome_boundry ''chr1'' 15 example_genome_sizes = Inr True
   \<and> shift_reads (bed_line [''chr1'', ''10'', ''20'', ''name'', ''0'', ''-''])
        example_genome_sizes_file [] MINUS_STRAND_SHIFT PLUS_STRAND_SHIFT
      = Inr \<lparr>output_bed = py_join TAB [''chr1'', ''5'', ''15'', ''name'', ''0'', ''-''] @ NL,
             log_file = []\<rparr>"
  by code_simp

text \<open>
  C3, as stated: the output is not the line \<open>chr1 5 15 name 0\<close>, which lacks the
  strand.
\<close>

theorem emitted_record_without_strand_counterexample:
  "shift_reads (bed_line [''chr1'', ''10'', ''20'', ''name'', ''0'', ''-''])
        example_genome_sizes_file [] MINUS_STRAND_SHIFT PLUS_STRAND_SHIFT
      \<noteq> Inr \<lparr>output_bed = py_join TAB [''chr1'', ''5'', ''15'', ''name'', ''0''] @ NL,
             log_file = []\<rparr>"
  by code_simp

text \<open>
  C8. The output file of \<open>shift_reads\<close> (or the exception it raises) is a function of
  the input interval file, the genome size file and the two shifts alone: it does not
  depend on what the log file held before the call, which is all that a first run changes
  for a second one.
\<close>

theorem shift_reads_deterministic:
  "map_sum id output_bed (shift_reads bed g log1 m p)
     = map_sum id output_bed (shift_reads bed g log2 m p)"
proof (cases "load_genome_sizes (py_lines g) Map.empty")
  case (Inl e)
  then show ?thesis by (simp add: shift_reads_def)
next
  case (Inr gs)
  let ?f = "\<lambda>l. shift_lines gs m p (py_lines bed) \<lparr>output_bed = [], log_file = l\<rparr>"
  show ?thesis
  proof (cases "?f log1")
    case (Inl e)
    then have "?f log2 = Inl e" using shift_lines_Inl by blast
    with Inl Inr show ?thesis by (simp add: shift_reads_def)
  next
    case r1: (Inr fs1)
    then obtain fs2 where r2: "?f log2 = Inr fs2"
      using shift_lines_Inl[of gs m p "py_lines bed" _ _ "\<lparr>output_bed = [], log_file = log1\<rparr>"]
      by (cases "?f log2") auto
    show ?thesis using shift_lines_Inr[OF r1] shift_lines_Inr[OF r2] r1 r2 Inr
      by (simp add: shift_reads_def)
  qed
qed

text \<open>
  C9, as stated: the chromosome \<open>chrZ\<close> is absent from the table \<open>chr1: 100\<close>, and yet
  the record \<open>chrZ 2 9 name 0 -\<close> is logged and dropped, with no \<^verbatim>\<open>KeyError\<close>:
  its shifted start is \<open>-3\<close>, and the lower bound is checked before the table is read.
  So \<open>shift_reads\<close> returns although a chromosome of its input is missing from the table.
\<close>

theorem absent_chromosome_logged_counterexample:
  "example_genome_sizes ''chrZ'' = None
   \<and> parse_record (fields_of (bed_line [''chrZ'', ''2'', ''9'', ''name'', ''0'', ''-'']))
       = Inr (''chrZ'', 2, 9, ''-'')
   \<and> shift_line example_genome_sizes MINUS_STRAND_SHIFT PLUS_STRAND_SHIFT
        (bed_line [''chrZ'', ''2'', ''9'', ''name'', ''0'', ''-'']) no_files
      = Inr \<lparr>output_bed = [],
             log_file = ''Shift start site beyond chromosome boundry:'' @ NL
               @ py_join TAB [''chrZ'', ''2'', ''9'', ''name'', ''0'', ''-''] @ NL\<rparr>
   \<and> shift_reads (bed_line [''chrZ'', ''2'', ''9'', ''name'', ''0'', ''-''])
        example_genome_sizes_file [] MINUS_STRAND_SHIFT PLUS_STRAND_SHIFT
      = Inr \<lparr>output_bed = [],
             log_file = ''Shift start site beyond chromosome boundry:'' @ NL
               @ py_join TAB [''chrZ'', ''2'', ''9'', ''name'', ''0'', ''-''] @ NL\<rparr>"
proof -
  have "example_genome_sizes ''chrZ'' = None" by (simp add: example_genome_sizes_def)
  moreover have "parse_record (fields_of (bed_line [''chrZ'', ''2'', ''9'', ''name'', ''0'', ''-'']))
       = Inr (''chrZ'', 2, 9, ''-'')" by code_simp
  moreover have "shift_line example_genome_sizes MINUS_STRAND_SHIFT PLUS_STRAND_SHIFT
        (bed_line [''chrZ'', ''2'', ''9'', ''name'', ''0'', ''-'']) no_files
      = Inr \<lparr>output_bed = [],
             log_file = ''Shift start site beyond chromosome boundry:'' @ NL
               @ py_join TAB [''chrZ'', ''2'', ''9'', ''name'', ''0'', ''-''] @ NL\<rparr>" by code_simp
  moreover have "shift_reads (bed_line [''chrZ'', ''2'', ''9'', ''name'', ''0'', ''-''])
        example_genome_sizes_file [] MINUS_STRAND_SHIFT PLUS_STRAND_SHIFT
      = Inr \<lparr>output_bed = [],
             log_file = ''Shift start site beyond chromosome boundry:'' @ NL
               @ py_join TAB [''chrZ'', ''2'', ''9'', ''name'', ''0'', ''-''] @ NL\<rparr>" by code_simp
  ultimately show ?thesis by blast
qed

text \<open>
  C9, as amended. A record that parses, with strand \<open>+\<close> or \<open>-\<close>, whose chromosome is
  absent from the genome size table raises \<^verbatim>\<open>KeyError\<close> exactly when its shifted start is
  at least 1 (and then \<open>shift_reads\<close> raises); with a shifted start below 1 it is
  logged and dropped. \<open>shift_reads\<close> returns whenever the genome size file loads and
  every input line parses and names a chromosome of the table.
\<close>

theorem absent_chromosome:
  assumes "parse_record (fields_of line) = Inr (chrom, start, end, strand)"
    and "shifted_coordinates strand start end m p = Some (ns, ne)"
    and "gs chrom = None"
  shows "shift_line gs m p line fs =
           (if ns < 1 then
              Inr (fs\<lparr>log_file := log_file fs @ ''Shift start site beyond chromosome boundry:''
                     @ NL @ py_strip line @ NL\<rparr>)
            else Inl KeyError)
       \<and> (1 \<le> ns \<and> line \<in> set (py_lines bed)
            \<and> load_genome_sizes (py_lines g) Map.empty = Inr gs
            \<longrightarrow> (\<exists>e. shift_reads bed g log0 m p = Inl e))
       \<and> (load_genome_sizes (py_lines g) Map.empty = Inr gs
            \<and> (\<forall>l \<in> set (py_lines other_bed).
                  \<exists>c s e t. parse_record (fields_of l) = Inr (c, s, e, t) \<and> c \<in> dom gs)
            \<longrightarrow> (\<exists>fs'. shift_reads other_bed g log0 m p = Inr fs'))"
proof (intro conjI impI)
  show 1: "shift_line gs m p line fs =
           (if ns < 1 then
              Inr (fs\<lparr>log_file := log_file fs @ ''Shift start site beyond chromosome boundry:''
                     @ NL @ py_strip line @ NL\<rparr>)
            else Inl KeyError)" for fs
    unfolding shift_line_valid_strand[OF assms(1,2)] using assms(3)
    by (simp add: within_genome_boundry_def log_skip_def to_log_def)
  assume h: "1 \<le> ns \<and> line \<in> set (py_lines bed)
      \<and> load_genome_sizes (py_lines g) Map.empty = Inr gs"
  show "\<exists>e. shift_reads bed g log0 m p = Inl e"
  proof (rule shift_reads_raises)
    from h show "line \<in> set (py_lines bed)" by simp
    fix gs' assume "load_genome_sizes (py_lines g) Map.empty = Inr gs'"
    with h have "gs' = gs" by simp
    with h 1[of no_files] show "\<exists>e. shift_line gs' m p line no_files = Inl e" by simp
  qed
next
  assume h: "load_genome_sizes (py_lines g) Map.empty = Inr gs
      \<and> (\<forall>l \<in> set (py_lines other_bed).
            \<exists>c s e t. parse_record (fields_of l) = Inr (c, s, e, t) \<and> c \<in> dom gs)"
  show "\<exists>fs'. shift_reads other_bed g log0 m p = Inr fs'"
  proof (rule shift_reads_total)
    from h show "load_genome_sizes (py_lines g) Map.empty = Inr gs" by simp
    fix l assume "l \<in> set (py_lines other_bed)"
    with h obtain c s e t where "parse_record (fields_of l) = Inr (c, s, e, t)" "c \<in> dom gs"
      by blast
    then show "\<exists>fs'. shift_line gs m p l no_files = Inr fs'"
      by (rule shift_line_known_chromosome)
  qed
qed

theorem absent_chromosome_witness:
  "parse_record (fields_of (bed_line [''chrZ'', ''10'', ''20'', ''name'', ''0'', ''+'']))
       = Inr (''chrZ'', 10, 20, ''+'')
   \<and> shifted_coordinates ''+'' 10 20 MINUS_STRAND_SHIFT PLUS_STRAND_SHIFT = Some (14, 24)
   \<and> example_genome_sizes ''chrZ'' = None
   \<and> shift_line example_genome_sizes MINUS_STRAND_SHIFT PLUS_STRAND_SHIFT
        (bed_line [''chrZ'', ''10'', ''20'', ''name'', ''0'', ''+'']) no_files = Inl KeyError
   \<and> load_genome_sizes (py_lines example_genome_sizes_file) Map.empty = Inr example_genome_sizes
   \<and> (\<exists>e. shift_reads
        (bed_line [''chr1'', ''10'', ''20'', ''name'', ''0'', ''+'']
         @ bed_line [''chrZ'', ''10'', ''20'', ''name'', ''0'', ''+''])
        example_genome_sizes_file [] MINUS_STRAND_SHIFT PLUS_STRAND_SHIFT = Inl e)
   \<and> (\<exists>fs'. shift_reads
        (bed_line [''chr1'', ''10'', ''20'', ''name'', ''0'', ''+'']
         @ bed_line [''chr1'', ''96'', ''99'', ''name'', ''0'', ''+''])
        example_genome_sizes_file [] MINUS_STRAND_SHIFT PLUS_STRAND_SHIFT = Inr fs')"
proof -
  let ?z = "bed_line [''chrZ'', ''10'', ''20'', ''name'', ''0'', ''+'']"
  let ?a = "bed_line [''chr1'', ''10'', ''20'', ''name'', ''0'', ''+'']"
  let ?b = "bed_line [''chr1'', ''96'', ''99'', ''name'', ''0'', ''+'']"
  have p: "parse_record (fields_of ?z) = Inr (''chrZ'', 10, 20, ''+'')" by code_simp
  have c: "shifted_coordinates ''+'' 10 20 MINUS_STRAND_SHIFT PLUS_STRAND_SHIFT = Some (14, 24)"
    by code_simp
  have g: "example_genome_sizes ''chrZ'' = None" by (simp add: example_genome_sizes_def)
  have pa: "parse_record (fields_of ?a) = Inr (''chr1'', 10, 20, ''+'')" by code_simp
  have pb: "parse_record (fields_of ?b) = Inr (''chr1'', 96, 99, ''+'')" by code_simp
  have d: "''chr1'' \<in> dom example_genome_sizes" by (simp add: example_genome_sizes_def)
  have laz: "py_lines (?a @ ?z) = [?a, ?z]" and lab: "py_lines (?a @ ?b) = [?a, ?b]"
    by code_simp+
  have all: "\<forall>l \<in> set (py_lines (?a @ ?b)). \<exists>c s e t. parse_record (fields_of l) = Inr (c, s, e, t)
      \<and> c \<in> dom example_genome_sizes"
    unfolding lab using pa pb d by simp
  have inz: "?z \<in> set (py_lines (?a @ ?z))" unfolding laz by simp
  note L = load_example_genome_sizes
  note T = absent_chromosome[where gs = example_genome_sizes and fs = no_files
      and bed = "?a @ ?z" and other_bed = "?a @ ?b" and g = example_genome_sizes_file
      and ?log0.0 = "[]", OF p c g]
  from T have 1: "shift_line example_genome_sizes MINUS_STRAND_SHIFT PLUS_STRAND_SHIFT ?z no_files
      = Inl KeyError" by simp
  from T inz L have 2: "\<exists>e. shift_reads (?a @ ?z) example_genome_sizes_file []
      MINUS_STRAND_SHIFT PLUS_STRAND_SHIFT = Inl e" by simp
  from T all L have 3: "\<exists>fs'. shift_reads (?a @ ?b) example_genome_sizes_file []
      MINUS_STRAND_SHIFT PLUS_STRAND_SHIFT = Inr fs'" by blast
  from p c g L 1 2 3 show ?thesis by blast
qed

text \<open>
  C10. A line with fewer than six tab-separated fields (before or after stripping), or
  whose second or third field is not an integer literal, makes the loop body raise
  \<^verbatim>\<open>IndexError\<close> or \<^verbatim>\<open>ValueError\<close>, and \<open>shift_reads\<close> raises on a file that
  holds such a line. The body takes the
  path that logs a malformed line exactly for the lines with at least six fields and
  integer coordinates whose sixth field is neither \<open>+\<close> nor \<open>-\<close>.
\<close>

theorem unparsable_line_raises:
  "((length (py_split (CHR 0x09) line) < 6 \<or> length (fields_of line) < 6
       \<or> py_int (fields_of line ! 1) = Inl ValueError
       \<or> py_int (fields_of line ! 2) = Inl ValueError)
      \<longrightarrow> (shift_line gs m p line fs = Inl IndexError \<or> shift_line gs m p line fs = Inl ValueError)
          \<and> (line \<in> set (py_lines bed) \<longrightarrow> (\<exists>e. shift_reads bed g log0 m p = Inl e)))
   \<and> (shift_line gs m p line fs =
         Inr (fs\<lparr>log_file := log_file fs @ ''Mal-formatted line in file, skipping:'' @ NL
                 @ py_strip line @ NL\<rparr>)
       \<longleftrightarrow> 6 \<le> length (fields_of line)
           \<and> (\<exists>start. py_int (fields_of line ! 1) = Inr start)
           \<and> (\<exists>end. py_int (fields_of line ! 2) = Inr end)
           \<and> fields_of line ! 5 \<noteq> ''+'' \<and> fields_of line ! 5 \<noteq> ''-'')"
proof (intro conjI impI)
  assume "length (py_split (CHR 0x09) line) < 6 \<or> length (fields_of line) < 6
       \<or> py_int (fields_of line ! 1) = Inl ValueError
       \<or> py_int (fields_of line ! 2) = Inl ValueError"
  then have a: "length (fields_of line) < 6 \<or> py_int (fields_of line ! 1) = Inl ValueError
           \<or> py_int (fields_of line ! 2) = Inl ValueError"
    using fields_of_le[of line] by auto
  show "shift_line gs m p line fs = Inl IndexError \<or> shift_line gs m p line fs = Inl ValueError"
    by (rule shift_line_unparsable[OF a])
  assume "line \<in> set (py_lines bed)"
  then show "\<exists>e. shift_reads bed g log0 m p = Inl e"
  proof (rule shift_reads_raises)
    fix gs'
    from shift_line_unparsable[OF a, of gs' m p no_files]
    show "\<exists>e. shift_line gs' m p line no_files = Inl e" by blast
  qed
next
  show "shift_line gs m p line fs =
         Inr (fs\<lparr>log_file := log_file fs @ ''Mal-formatted line in file, skipping:'' @ NL
                 @ py_strip line @ NL\<rparr>)
       \<longleftrightarrow> 6 \<le> length (fields_of line)
           \<and> (\<exists>start. py_int (fields_of line ! 1) = Inr start)
           \<and> (\<exists>end. py_int (fields_of line ! 2) = Inr end)
           \<and> fields_of line ! 5 \<noteq> ''+'' \<and> fields_of line ! 5 \<noteq> ''-''"
    unfolding malformed_log_iff parse_record_Inr by auto
qed

theorem unparsable_line_raises_witness:
  "length (fields_of (bed_line [''chr1'', ''10'', ''20''])) < 6
   \<and> shift_line example_genome_sizes MINUS_STRAND_SHIFT PLUS_STRAND_SHIFT
        (bed_line [''chr1'', ''10'', ''20'']) no_files = Inl IndexError
   \<and> (\<exists>e. shift_reads
        (bed_line [''chr1'', ''10'', ''20'', ''name'', ''0'', ''+'']
         @ bed_line [''chr1'', ''10'', ''20''])
        example_genome_sizes_file [] MINUS_STRAND_SHIFT PLUS_STRAND_SHIFT = Inl e)
   \<and> py_int (fields_of (bed_line [''chr1'', ''ten'', ''20'', ''name'', ''0'', ''+'']) ! 1)
       = Inl ValueError
   \<and> shift_line example_genome_sizes MINUS_STRAND_SHIFT PLUS_STRAND_SHIFT
        (bed_line [''chr1'', ''ten'', ''20'', ''name'', ''0'', ''+'']) no_files = Inl ValueError
   \<and> shift_line example_genome_sizes MINUS_STRAND_SHIFT PLUS_STRAND_SHIFT
        (bed_line [''chr1'', ''10'', ''20'', ''name'', ''0'', ''.'']) no_files
       = Inr \<lparr>output_bed = [],
              log_file = ''Mal-formatted line in file, skipping:'' @ NL
                @ py_join TAB [''chr1'', ''10'', ''20'', ''name'', ''0'', ''.''] @ NL\<rparr>"
proof -
  let ?short = "bed_line [''chr1'', ''10'', ''20'']"
  let ?ok = "bed_line [''chr1'', ''10'', ''20'', ''name'', ''0'', ''+'']"
  let ?ten = "bed_line [''chr1'', ''ten'', ''20'', ''name'', ''0'', ''+'']"
  let ?dot = "bed_line [''chr1'', ''10'', ''20'', ''name'', ''0'', ''.'']"
  have s: "length (fields_of ?short) < 6" by code_simp
  have sv: "shift_line example_genome_sizes MINUS_STRAND_SHIFT PLUS_STRAND_SHIFT ?short no_files
      \<noteq> Inl ValueError" by code_simp
  have t: "py_int (fields_of ?ten ! 1) = Inl ValueError" by code_simp
  have ti: "shift_line example_genome_sizes MINUS_STRAND_SHIFT PLUS_STRAND_SHIFT ?ten no_files
      \<noteq> Inl IndexError" by code_simp
  have d: "6 \<le> length (fields_of ?dot) \<and> py_int (fields_of ?dot ! 1) = Inr 10
      \<and> py_int (fields_of ?dot ! 2) = Inr 20
      \<and> fields_of ?dot ! 5 \<noteq> ''+'' \<and> fields_of ?dot ! 5 \<noteq> ''-''" by code_simp
  have sd: "py_strip ?dot = py_join TAB [''chr1'', ''10'', ''20'', ''name'', ''0'', ''.'']"
    by code_simp
  have ins: "?short \<in> set (py_lines (?ok @ ?short))"
  proof -
    have "py_lines (?ok @ ?short) = [?ok, ?short]" by code_simp
    then show ?thesis by simp
  qed
  note S = unparsable_line_raises[where line = ?short and gs = example_genome_sizes
      and m = MINUS_STRAND_SHIFT and p = PLUS_STRAND_SHIFT and fs = no_files
      and bed = "?ok @ ?short" and g = example_genome_sizes_file and ?log0.0 = "[]"]
  note T = unparsable_line_raises[where line = ?ten and gs = example_genome_sizes
      and m = MINUS_STRAND_SHIFT and p = PLUS_STRAND_SHIFT and fs = no_files
      and bed = ?ten and g = example_genome_sizes_file and ?log0.0 = "[]"]
  note D = unparsable_line_raises[where line = ?dot and gs = example_genome_sizes
      and m = MINUS_STRAND_SHIFT and p = PLUS_STRAND_SHIFT and fs = no_files
      and bed = ?dot and g = example_genome_sizes_file and ?log0.0 = "[]"]
  from S s sv have 1: "shift_line example_genome_sizes MINUS_STRAND_SHIFT PLUS_STRAND_SHIFT
      ?short no_files = Inl IndexError" by blast
  from S s ins have 2: "\<exists>e. shift_reads (?ok @ ?short) example_genome_sizes_file []
      MINUS_STRAND_SHIFT PLUS_STRAND_SHIFT = Inl e" by simp
  from T t ti have 3: "shift_line example_genome_sizes MINUS_STRAND_SHIFT PLUS_STRAND_SHIFT
      ?ten no_files = Inl ValueError" by blast
  from D d have "shift_line example_genome_sizes MINUS_STRAND_SHIFT PLUS_STRAND_SHIFT ?dot no_files
      = Inr (no_files\<lparr>log_file := log_file no_files @ ''Mal-formatted line in file, skipping:''
           @ NL @ py_strip ?dot @ NL\<rparr>)" by blast
  with sd have 4: "shift_line example_genome_sizes MINUS_STRAND_SHIFT PLUS_STRAND_SHIFT ?dot no_files
       = Inr \<lparr>output_bed = [],
              log_file = ''Mal-formatted line in file, skipping:'' @ NL
                @ py_join TAB [''chr1'', ''10'', ''20'', ''name'', ''0'', ''.''] @ NL\<rparr>"
    by (simp add: no_files_def)
  from s 1 2 t 3 4 show ?thesis by blast
qed

section \<open>The steric-hindrance filter\<close>

lemma steric_filter_append:
  "steric_filter segments written
     = written @ filter (\<lambda>read. STERIC_HINDRANCE_CUTOFF \<le> \<bar>template_length read\<bar>) segments"
  by (induction segments arbitrary: written) simp_all

text \<open>
  C4. The container written by the steric-hindrance filter is the list of the input
  records, unchanged and in their order, whose fragment length has an absolute value of at
  least 38. For records with the lengths 10, 38, -38, 37, -50 these are the second, the
  third and the fifth.
\<close>

theorem steric_filter_keeps:
  "steric_filter segments [] = filter (\<lambda>read. 38 \<le> \<bar>template_length read\<bar>) segments
   \<and> map template_length example_reads = [10, 38, - 38, 37, - 50]
   \<and> steric_filter example_reads []
       = [example_read ''r2'' 38, example_read ''r3'' (- 38), example_read ''r5'' (- 50)]"
proof -
  have "steric_filter segments [] = filter (\<lambda>read. 38 \<le> \<bar>template_length read\<bar>) segments"
    by (simp add: steric_filter_append STERIC_HINDRANCE_CUTOFF_def)
  moreover have "map template_length example_reads = [10, 38, - 38, 37, - 50]"
    by (simp add: example_reads_def example_read_def)
  moreover have "steric_filter example_reads []
       = [example_read ''r2'' 38, example_read ''r3'' (- 38), example_read ''r5'' (- 50)]"
    by (simp add: example_reads_def example_read_def STERIC_HINDRANCE_CUTOFF_def)
  ultimately show ?thesis by blast
qed

section \<open>The duplicate rate\<close>

lemma py_lines_nonempty: "[] \<notin> set (py_lines s)"
  by (induction s) (auto split: list.splits)

lemma scrape_percent_duplicates_eq:
  "[] \<notin> set lines \<Longrightarrow>
   scrape_percent_duplicates lines cur =
     Inr (let rows = filter is_data_row lines
          in if rows = [] then cur else fields_of (last rows) ! 7)"
proof (induction lines arbitrary: cur)
  case Nil
  then show ?case by simp
next
  case (Cons line rest)
  then obtain ch cs where l: "line = ch # cs" by (cases line) auto
  from Cons.prems have r: "[] \<notin> set rest" by simp
  show ?case
  proof (cases "is_data_row line")
    case True
    then have "scrape_percent_duplicates (line # rest) cur
        = scrape_percent_duplicates rest (fields_of line ! 7)"
      by (simp add: l is_data_row_def)
    with True Cons.IH[OF r] show ?thesis by (simp add: Let_def)
  next
    case False
    then have "scrape_percent_duplicates (line # rest) cur = scrape_percent_duplicates rest cur"
      by (auto simp: l is_data_row_def)
    with False Cons.IH[OF r] show ?thesis by (simp add: Let_def)
  qed
qed

lemma fold_flagstat_qc_keeps:
  "staging_delete (fold (flagstat_qc c w) bams st) = staging_delete st
   \<and> percent_duplicate_reads (qc_data (fold (flagstat_qc c w) bams st))
       = percent_duplicate_reads (qc_data st)
   \<and> read_pairs (fold (flagstat_qc c w) bams st) = read_pairs st
   \<and> bwa_bam_outs (fold (flagstat_qc c w) bams st) = bwa_bam_outs st"
  by (induction bams arbitrary: st) (simp_all add: flagstat_qc_def)

text \<open>
  C7, as amended. The duplicate rate recorded is the 8th field of the last data row of the
  report (a non-comment row with exactly 9 tab-separated fields whose 8th field starts
  with a digit); without such a row the value recorded before stays. When the report
  cannot be opened the placeholder is recorded. Nothing is raised: the stage stores the
  value computed.
\<close>

theorem percent_duplicates_last_row:
  "percent_duplicate_reads_qc (Some text) cur =
     (let rows = filter is_data_row (py_lines text)
      in if rows = [] then cur else fields_of (last rows) ! 7)
   \<and> percent_duplicate_reads_qc None cur = ''Could not open MarkDuplicates metrics''
   \<and> percent_duplicate_reads (qc_data (stage4 a c w st))
       = percent_duplicate_reads_qc (markdup_metrics w) (percent_duplicate_reads (qc_data st))"
proof (intro conjI)
  show "percent_duplicate_reads_qc (Some text) cur =
     (let rows = filter is_data_row (py_lines text)
      in if rows = [] then cur else fields_of (last rows) ! 7)"
    by (simp add: percent_duplicate_reads_qc_def scrape_percent_duplicates_eq[OF py_lines_nonempty])
  show "percent_duplicate_reads_qc None cur = ''Could not open MarkDuplicates metrics''"
    by (simp add: percent_duplicate_reads_qc_def)
  have "percent_duplicate_reads (qc_data (fold (flagstat_qc c w) (bwa_bam_outs st) st))
      = percent_duplicate_reads (qc_data st)"
    by (simp add: fold_flagstat_qc_keeps)
  then show "percent_duplicate_reads (qc_data (stage4 a c w st))
       = percent_duplicate_reads_qc (markdup_metrics w) (percent_duplicate_reads (qc_data st))"
    by (simp add: stage4_def Let_def)
qed

text \<open>
  C7, as stated: a report with the data rows of two libraries, with the rates 0.10 and
  0.20. The first data row says 0.10, the value recorded is 0.20.
\<close>

theorem percent_duplicates_first_row_counterexample:
  "filter is_data_row (py_lines example_markdup_metrics)
     = [bed_line [''libA'', ''1'', ''20'', ''3'', ''0'', ''2'', ''0'', ''0.10'', ''100''],
        bed_line [''libB'', ''1'', ''20'', ''3'', ''0'', ''4'', ''0'', ''0.20'', ''200'']]
   \<and> fields_of (hd (filter is_data_row (py_lines example_markdup_metrics))) ! 7 = ''0.10''
   \<and> percent_duplicate_reads_qc (Some example_markdup_metrics) ''0'' = ''0.20''"
  by code_simp

text \<open>
  C6, as amended. Stage 4 appends to the staging-delete list the sorted-merged container
  and its index, the steric-filtered, unique and duplicate-removed containers, the
  unmapped-removed container and its index, and the final chrM-removed container as well.
\<close>

theorem stage4_staging_delete:
  "staging_delete (stage4 a c w st) = staging_delete st @
     [sortmerged_bam a, sortmerged_bam a @ ''.bai'', steric_filter_bam a, unique_bam a,
      duprm_bam a, unmappedrm_bam a, unmappedrm_bam a @ ''.bai'', chrmrm_bam a]"
  by (simp add: stage4_def Let_def fold_flagstat_qc_keeps)

text \<open>
  C6, as stated: after stage 4 of the run of \<open>lib\<close> in \<open>/out\<close>, the chrM-removed
  container \<open>/out/lib.chrmrm.bam\<close> is in the staging-delete list.
\<close>

theorem stage4_stages_chrmrm_counterexample:
  "chrmrm_bam example_args = ''/out/lib.chrmrm.bam''
   \<and> ''/out/lib.chrmrm.bam''
       \<in> set (staging_delete (stage4 example_args example_config example_world
                (initial_state example_args)))"
proof -
  have "chrmrm_bam example_args = ''/out/lib.chrmrm.bam''" by code_simp
  then show ?thesis by (simp add: stage4_def Let_def fold_flagstat_qc_keeps)
qed

section \<open>The stage runner\<close>




section \<open>How the paths end\<close>





























end
